theory Spec2Isabelle
  imports Complex_Main "HOL-Library.Word"
begin

unbundle bit_operations_syntax

section \<open>JavaScript numbers\<close>

text \<open>
  Every \<^verbatim>\<open>number\<close> of the TypeScript source is an IEEE-754 double. The model keeps the
  three non-finite values of the format apart, because the source divides by a quantity
  that can be zero, and carries a finite value as a real number: arithmetic on finite
  values is exact (rounding and overflow to infinity are abstracted away, and the sign of
  zero is not represented: every zero is \<open>+0\<close>).
\<close>

datatype jsnum = Num real | PosInf | NegInf | NaN


text \<open>\<^verbatim>\<open>a + b\<close>\<close>

fun js_add :: "jsnum \<Rightarrow> jsnum \<Rightarrow> jsnum" where
  "js_add (Num a) (Num b) = Num (a + b)"
| "js_add NaN b = NaN"
| "js_add a NaN = NaN"
| "js_add PosInf NegInf = NaN"
| "js_add NegInf PosInf = NaN"
| "js_add PosInf b = PosInf"
| "js_add a PosInf = PosInf"
| "js_add NegInf b = NegInf"
| "js_add a NegInf = NegInf"


text \<open>An infinity with the sign of \<open>s\<close>; \<open>NaN\<close> when \<open>s\<close> is zero.\<close>

definition signed_inf :: "real \<Rightarrow> jsnum" where
  "signed_inf s = (if s = 0 then NaN else if 0 < s then PosInf else NegInf)"

text \<open>\<^verbatim>\<open>a * b\<close>\<close>

fun js_mul :: "jsnum \<Rightarrow> jsnum \<Rightarrow> jsnum" where
  "js_mul (Num a) (Num b) = Num (a * b)"
| "js_mul NaN b = NaN"
| "js_mul a NaN = NaN"
| "js_mul PosInf (Num b) = signed_inf b"
| "js_mul NegInf (Num b) = signed_inf (- b)"
| "js_mul (Num a) PosInf = signed_inf a"
| "js_mul (Num a) NegInf = signed_inf (- a)"
| "js_mul PosInf PosInf = PosInf"
| "js_mul NegInf NegInf = PosInf"
| "js_mul PosInf NegInf = NegInf"
| "js_mul NegInf PosInf = NegInf"

text \<open>\<^verbatim>\<open>a / b\<close>: a zero divisor gives \<open>NaN\<close> for \<open>0 / 0\<close> and an infinity otherwise.\<close>

fun js_div :: "jsnum \<Rightarrow> jsnum \<Rightarrow> jsnum" where
  "js_div (Num a) (Num b) = (if b = 0 then signed_inf a else Num (a / b))"
| "js_div NaN b = NaN"
| "js_div a NaN = NaN"
| "js_div (Num a) PosInf = Num 0"
| "js_div (Num a) NegInf = Num 0"
| "js_div PosInf (Num b) = (if 0 \<le> b then PosInf else NegInf)"
| "js_div NegInf (Num b) = (if 0 \<le> b then NegInf else PosInf)"
| "js_div PosInf b = NaN"
| "js_div NegInf b = NaN"

text \<open>\<^verbatim>\<open>a < b\<close> and \<^verbatim>\<open>a <= b\<close>: every comparison with \<open>NaN\<close> is false.\<close>

fun js_lt :: "jsnum \<Rightarrow> jsnum \<Rightarrow> bool" where
  "js_lt (Num a) (Num b) = (a < b)"
| "js_lt NaN b = False"
| "js_lt a NaN = False"
| "js_lt a NegInf = False"
| "js_lt PosInf b = False"
| "js_lt NegInf b = True"
| "js_lt a PosInf = True"

definition js_le :: "jsnum \<Rightarrow> jsnum \<Rightarrow> bool" where
  "js_le a b = (a \<noteq> NaN \<and> b \<noteq> NaN \<and> (a = b \<or> js_lt a b))"

text \<open>\<^verbatim>\<open>Math.max(a, b)\<close> and \<^verbatim>\<open>Math.min(a, b)\<close>: \<open>NaN\<close> when either argument is.\<close>

definition Math_max :: "jsnum \<Rightarrow> jsnum \<Rightarrow> jsnum" where
  "Math_max a b = (if a = NaN \<or> b = NaN then NaN else if js_lt a b then b else a)"

definition Math_min :: "jsnum \<Rightarrow> jsnum \<Rightarrow> jsnum" where
  "Math_min a b = (if a = NaN \<or> b = NaN then NaN else if js_lt b a then b else a)"

section \<open>Data model (types.ts)\<close>

datatype Language = ENGLISH | VIETNAMESE

text \<open>
  A string is a list of characters; \<open>length\<close> stands for the number of UTF-16 code units
  that \<^verbatim>\<open>.length\<close> counts. The field \<^verbatim>\<open>id\<close> is named \<open>seg_id\<close>
  (\<open>id\<close> is the identity function of HOL).
\<close>

record SubtitleSegment =
  seg_id :: nat
  original :: string
  translated :: string
  startTime :: jsnum
  endTime :: jsnum

section \<open>Timeline alignment (alignSegments)\<close>

text \<open>
  \<^verbatim>\<open>segments.reduce((sum, seg) => sum + seg.original.length, 0)\<close>
\<close>

definition totalChars :: "SubtitleSegment list \<Rightarrow> jsnum" where
  "totalChars segments =
     foldl (\<lambda>sum seg. js_add sum (Num (real (length (original seg))))) (Num 0) segments"

text \<open>
  The callback of \<^verbatim>\<open>segments.map\<close> reads and advances the variable
  \<^verbatim>\<open>currentTime\<close> of the enclosing function; the model passes it along the list.
\<close>

fun alignMap :: "jsnum \<Rightarrow> jsnum \<Rightarrow> jsnum \<Rightarrow> SubtitleSegment list \<Rightarrow> SubtitleSegment list" where
  "alignMap tot duration currentTime [] = []"
| "alignMap tot duration currentTime (seg # rest) =
     (let segmentDuration = js_mul (js_div (Num (real (length (original seg)))) tot) duration;
          aligned = seg\<lparr>startTime := currentTime, endTime := js_add currentTime segmentDuration\<rparr>
      in aligned # alignMap tot duration (js_add currentTime segmentDuration) rest)"

definition alignSegments :: "SubtitleSegment list \<Rightarrow> jsnum \<Rightarrow> SubtitleSegment list" where
  "alignSegments segments duration = alignMap (totalChars segments) duration (Num 0) segments"

text \<open>The number of source characters of a segment list, as a natural number.\<close>

definition charCount :: "SubtitleSegment list \<Rightarrow> nat" where
  "charCount segments = sum_list (map (\<lambda>seg. length (original seg)) segments)"

text \<open>The two segments of the specification's first scenario, not yet aligned.\<close>

definition helloWorld :: "SubtitleSegment list" where
  "helloWorld =
     [\<lparr>seg_id = 0, original = ''Hello'', translated = ''Xin chao'', startTime = Num 0, endTime = Num 0\<rparr>,
      \<lparr>seg_id = 1, original = ''World!!'', translated = ''The gioi!!'', startTime = Num 0, endTime = Num 0\<rparr>]"

text \<open>Two segments whose source texts are empty.\<close>

definition silentSegments :: "SubtitleSegment list" where
  "silentSegments =
     [\<lparr>seg_id = 0, original = [], translated = ''a'', startTime = Num 0, endTime = Num 0\<rparr>,
      \<lparr>seg_id = 1, original = [], translated = ''b'', startTime = Num 0, endTime = Num 0\<rparr>]"


section \<open>Errors\<close>

text \<open>
  A thrown exception or a rejected promise is a value of type \<open>error\<close>; a computation
  that can throw returns \<open>error + 'a\<close>, with \<open>Inl\<close> for the exception.
  \<open>Error msg\<close> is \<^verbatim>\<open>new Error(msg)\<close>; the other constructors are the
  exceptions of the platform functions the source calls.
\<close>

datatype error = Error string | SyntaxError | TypeError | RangeError | InvalidCharacterError

definition bindE :: "error + 'a \<Rightarrow> ('a \<Rightarrow> error + 'b) \<Rightarrow> error + 'b" where
  "bindE m f = (case m of Inl e \<Rightarrow> Inl e | Inr x \<Rightarrow> f x)"

section \<open>Byte buffers (ArrayBuffer, DataView, Uint8Array)\<close>

type_synonym byte = "8 word"

text \<open>
  The conversion of a number to an unsigned integer of the width of the target
  (ToUint8, ToUint16, ToUint32 of ECMAScript): a non-finite value is 0, a finite one is
  truncated towards zero and taken modulo \<open>2 ^ width\<close>.
\<close>

definition js_trunc :: "real \<Rightarrow> int" where
  "js_trunc x = (if 0 \<le> x then \<lfloor>x\<rfloor> else \<lceil>x\<rceil>)"

fun ToUint :: "jsnum \<Rightarrow> 'a::len word" where
  "ToUint (Num x) = word_of_int (js_trunc x)"
| "ToUint PosInf = 0"
| "ToUint NegInf = 0"
| "ToUint NaN = 0"

text \<open>
  \<^verbatim>\<open>string.charCodeAt(i)\<close>: the code of the character at index \<open>i\<close>, \<open>NaN\<close> out
  of range.
\<close>

definition charCodeAt :: "string \<Rightarrow> nat \<Rightarrow> jsnum" where
  "charCodeAt s i = (if i < length s then Num (real (of_char (s ! i) :: nat)) else NaN)"

text \<open>
  The \<^verbatim>\<open>DataView\<close> of the source spans its whole \<^verbatim>\<open>ArrayBuffer\<close>, so a view is
  the list of the buffer's bytes. A write that does not fit in the view throws
  \<^verbatim>\<open>RangeError\<close>. The last argument of the 16 and 32 bit writes is
  \<^verbatim>\<open>littleEndian\<close>.
\<close>

definition setUint8 :: "byte list \<Rightarrow> nat \<Rightarrow> jsnum \<Rightarrow> error + byte list" where
  "setUint8 view byteOffset v =
     (if byteOffset + 1 \<le> length view then Inr (view[byteOffset := ToUint v])
      else Inl RangeError)"

definition setUint16 :: "byte list \<Rightarrow> nat \<Rightarrow> jsnum \<Rightarrow> bool \<Rightarrow> error + byte list" where
  "setUint16 view byteOffset v littleEndian =
     (let w = (ToUint v :: 16 word); b0 = (ucast w :: byte); b1 = (ucast (drop_bit 8 w) :: byte)
      in if byteOffset + 2 \<le> length view
         then Inr (if littleEndian then view[byteOffset := b0, byteOffset + 1 := b1]
                   else view[byteOffset := b1, byteOffset + 1 := b0])
         else Inl RangeError)"

definition setUint32 :: "byte list \<Rightarrow> nat \<Rightarrow> jsnum \<Rightarrow> bool \<Rightarrow> error + byte list" where
  "setUint32 view byteOffset v littleEndian =
     (let w = (ToUint v :: 32 word);
          b0 = (ucast w :: byte); b1 = (ucast (drop_bit 8 w) :: byte);
          b2 = (ucast (drop_bit 16 w) :: byte); b3 = (ucast (drop_bit 24 w) :: byte)
      in if byteOffset + 4 \<le> length view
         then Inr (if littleEndian
                   then view[byteOffset := b0, byteOffset + 1 := b1,
                             byteOffset + 2 := b2, byteOffset + 3 := b3]
                   else view[byteOffset := b3, byteOffset + 1 := b2,
                             byteOffset + 2 := b1, byteOffset + 3 := b0])
         else Inl RangeError)"

text \<open>
  A store \<^verbatim>\<open>array[i] = v\<close> into the \<^verbatim>\<open>Uint8Array\<close> that starts at byte
  \<open>byteOffset\<close> of the buffer and runs to its end: the value is converted by ToUint8,
  and a store outside the array is ignored.
\<close>

definition uint8array_set :: "byte list \<Rightarrow> nat \<Rightarrow> nat \<Rightarrow> jsnum \<Rightarrow> byte list" where
  "uint8array_set buffer byteOffset i v =
     (if byteOffset + i < length buffer then buffer[byteOffset + i := ToUint v] else buffer)"

text \<open>
  The little-endian reads \<^verbatim>\<open>getUint16(offset, true)\<close> and \<^verbatim>\<open>getUint32(offset, true)\<close>:
  the byte at the lowest offset is the least significant.
\<close>

definition word16_of_bytes :: "byte \<Rightarrow> byte \<Rightarrow> 16 word" where
  "word16_of_bytes b0 b1 = ucast b0 OR push_bit 8 (ucast b1)"

definition word32_of_bytes :: "byte \<Rightarrow> byte \<Rightarrow> byte \<Rightarrow> byte \<Rightarrow> 32 word" where
  "word32_of_bytes b0 b1 b2 b3 =
     ucast b0 OR push_bit 8 (ucast b1) OR push_bit 16 (ucast b2) OR push_bit 24 (ucast b3)"

definition getUint16 :: "byte list \<Rightarrow> nat \<Rightarrow> 16 word" where
  "getUint16 view byteOffset = word16_of_bytes (view ! byteOffset) (view ! (byteOffset + 1))"

definition getUint32 :: "byte list \<Rightarrow> nat \<Rightarrow> 32 word" where
  "getUint32 view byteOffset =
     word32_of_bytes (view ! byteOffset) (view ! (byteOffset + 1))
       (view ! (byteOffset + 2)) (view ! (byteOffset + 3))"

text \<open>The bytes of an ASCII tag, as \<^verbatim>\<open>charCodeAt\<close> and ToUint8 give them.\<close>

definition tagBytes :: "string \<Rightarrow> byte list" where
  "tagBytes s = map (\<lambda>c. of_char c) s"

text \<open>The bytes of a 16 and of a 32 bit word, least significant first.\<close>

definition le16 :: "16 word \<Rightarrow> byte list" where
  "le16 w = [ucast w, ucast (drop_bit 8 w)]"

definition le32 :: "32 word \<Rightarrow> byte list" where
  "le32 w = [ucast w, ucast (drop_bit 8 w), ucast (drop_bit 16 w), ucast (drop_bit 24 w)]"

section \<open>PCM container encoder (base64ToWavBlob)\<close>

record Blob =
  blob_bytes :: "byte list"
  blob_type :: string

text \<open>
  \<^verbatim>\<open>for (let i = 0; i < string.length; i++) view.setUint8(offset + i, string.charCodeAt(i))\<close>
\<close>

function writeString_loop :: "byte list \<Rightarrow> nat \<Rightarrow> string \<Rightarrow> nat \<Rightarrow> error + byte list" where
  "writeString_loop view offset string i =
     (if i < length string
      then (case setUint8 view (offset + i) (charCodeAt string i) of
              Inl e \<Rightarrow> Inl e
            | Inr view' \<Rightarrow> writeString_loop view' offset string (Suc i))
      else Inr view)"
  by pat_completeness auto
termination
  by (relation "measure (\<lambda>(view, offset, string, i). length string - i)") auto

definition writeString :: "byte list \<Rightarrow> nat \<Rightarrow> string \<Rightarrow> error + byte list" where
  "writeString view offset string = writeString_loop view offset string 0"

text \<open>
  \<^verbatim>\<open>for (let i = 0; i < len; i++) pcmData[i] = binaryString.charCodeAt(i)\<close>, where
  \<^verbatim>\<open>pcmData = new Uint8Array(buffer, 44)\<close>.
\<close>

function pcm_loop :: "byte list \<Rightarrow> string \<Rightarrow> nat \<Rightarrow> nat \<Rightarrow> byte list" where
  "pcm_loop buffer binaryString len i =
     (if i < len
      then pcm_loop (uint8array_set buffer 44 i (charCodeAt binaryString i)) binaryString len (Suc i)
      else buffer)"
  by pat_completeness auto
termination
  by (relation "measure (\<lambda>(buffer, binaryString, len, i). len - i)") auto

text \<open>
  \<^verbatim>\<open>window.atob\<close> is a function of the browser: it is the parameter \<open>atob\<close>, which
  returns the decoded binary string (one character per byte) or throws. The optional
  argument \<^verbatim>\<open>sampleRate = 24000\<close> is \<open>None\<close> when the caller leaves it out. The
  view and the typed array of the source share one buffer; the model passes the buffer
  from each write to the next.
\<close>

definition base64ToWavBlob :: "(string \<Rightarrow> error + string) \<Rightarrow> string \<Rightarrow> jsnum option \<Rightarrow> error + Blob" where
  "base64ToWavBlob atob base64 sampleRateArg =
     (let sampleRate = (case sampleRateArg of None \<Rightarrow> Num 24000 | Some r \<Rightarrow> r) in
      bindE (atob base64) (\<lambda>binaryString.
      let len = length binaryString;
          buffer = replicate (44 + len) (0 :: byte)
      in
      bindE (writeString buffer 0 ''RIFF'') (\<lambda>view.
      bindE (setUint32 view 4 (js_add (Num 36) (Num (real len))) True) (\<lambda>view.
      bindE (writeString view 8 ''WAVE'') (\<lambda>view.
      bindE (writeString view 12 ''fmt '') (\<lambda>view.
      bindE (setUint32 view 16 (Num 16) True) (\<lambda>view.
      bindE (setUint16 view 20 (Num 1) True) (\<lambda>view.
      bindE (setUint16 view 22 (Num 1) True) (\<lambda>view.
      bindE (setUint32 view 24 sampleRate True) (\<lambda>view.
      bindE (setUint32 view 28 (js_mul sampleRate (Num 2)) True) (\<lambda>view.
      bindE (setUint16 view 32 (Num 2) True) (\<lambda>view.
      bindE (setUint16 view 34 (Num 16) True) (\<lambda>view.
      bindE (writeString view 36 ''data'') (\<lambda>view.
      bindE (setUint32 view 40 (Num (real len)) True) (\<lambda>view.
      Inr \<lparr>blob_bytes = pcm_loop view binaryString len 0,
           blob_type = ''audio/wav''\<rparr>)))))))))))))))"

text \<open>
  The 44 bytes that the thirteen header writes of \<open>base64ToWavBlob\<close> leave in the
  buffer, in the order of their offsets (\<open>base64ToWavBlob_layout\<close> below).
\<close>

definition wavHeader :: "nat \<Rightarrow> jsnum \<Rightarrow> byte list" where
  "wavHeader len sampleRate =
     tagBytes ''RIFF'' @ le32 (ToUint (js_add (Num 36) (Num (real len)))) @ tagBytes ''WAVE'' @
     tagBytes ''fmt '' @ le32 16 @ le16 1 @ le16 1 @
     le32 (ToUint sampleRate) @ le32 (ToUint (js_mul sampleRate (Num 2))) @ le16 2 @ le16 16 @
     tagBytes ''data'' @ le32 (ToUint (Num (real len)))"

text \<open>
  The reading side of the container, for the round trip of the specification
  (\<open>decode(encode(b, r))\<close>): it follows the specification's header layout, checks the
  four tags, the length of the format chunk and the encoding code, and returns the
  sample rate and the declared number of payload bytes after the header. It is not code
  of the repository: the browser's audio element decodes the file.
\<close>

record Decoded =
  samples :: "byte list"
  decodedRate :: nat

definition decode_spec :: "byte list \<Rightarrow> Decoded option" where
  "decode_spec bytes =
     (if 44 \<le> length bytes
         \<and> take 4 bytes = tagBytes ''RIFF''
         \<and> take 4 (drop 8 bytes) = tagBytes ''WAVE''
         \<and> take 4 (drop 12 bytes) = tagBytes ''fmt ''
         \<and> getUint32 bytes 16 = 16
         \<and> getUint16 bytes 20 = 1
         \<and> take 4 (drop 36 bytes) = tagBytes ''data''
         \<and> unat (getUint32 bytes 40) \<le> length bytes - 44
      then Some \<lparr>samples = take (unat (getUint32 bytes 40)) (drop 44 bytes),
                 decodedRate = unat (getUint32 bytes 24)\<rparr>
      else None)"

text \<open>
  An excerpt of \<^verbatim>\<open>window.atob\<close>, for the examples: the base64 text
  \<^verbatim>\<open>AAECAw==\<close> decodes to the four bytes 0, 1, 2, 3 and the empty text to the empty
  string.
\<close>

definition atob_excerpt :: "string \<Rightarrow> error + string" where
  "atob_excerpt s =
     (if s = ''AAECAw=='' then Inr [CHR 0x00, CHR 0x01, CHR 0x02, CHR 0x03]
      else if s = [] then Inr []
      else Inl InvalidCharacterError)"

section \<open>Remote service (geminiService.ts)\<close>

text \<open>
  The two calls to the hosted model go through \<^verbatim>\<open>ai.models.generateContent\<close>. A
  request is the model name, the text sent, and the part of the configuration that
  differs between the two calls: the JSON schema of the translation call (an array of
  objects with the string fields \<^verbatim>\<open>original\<close> and \<^verbatim>\<open>translated\<close>), or the audio
  modality with a prebuilt voice name.
\<close>

datatype Config = JsonSegmentArray | AudioVoice string

record Request =
  req_model :: string
  req_contents :: string
  req_config :: Config

text \<open>
  Of a response the source reads \<^verbatim>\<open>response.text\<close> and
  \<^verbatim>\<open>response.candidates?.[0]?.content?.parts?.[0]?.inlineData?.data\<close>; each is
  \<open>None\<close> when it is \<^verbatim>\<open>undefined\<close>.
\<close>

record Response =
  resp_text :: "string option"
  resp_inlineData :: "string option"

text \<open>An element of the parsed JSON array, as the response schema requires it.\<close>

record RawSegment =
  raw_original :: string
  raw_translated :: string

text \<open>
  What the module takes from outside the repository: the environment variable
  \<^verbatim>\<open>process.env.API_KEY\<close>, the remote call (a rejected promise is \<open>Inl\<close>), and
  \<^verbatim>\<open>JSON.parse\<close> (which throws on malformed text).
\<close>

record Env =
  API_KEY :: "string option"
  generateContent :: "Request \<Rightarrow> error + Response"
  JSON_parse :: "string \<Rightarrow> error + RawSegment list"

record GenerationResult =
  audioBase64 :: string
  segments :: "SubtitleSegment list"

text \<open>\<^verbatim>\<open>getClient\<close>: the client is represented by its key; \<^verbatim>\<open>!apiKey\<close> holds for a
  missing and for an empty key.\<close>

definition getClient :: "Env \<Rightarrow> error + string" where
  "getClient env =
     (case API_KEY env of
        None \<Rightarrow> Inl (Error ''API Key is missing. Please set the API_KEY environment variable.'')
      | Some apiKey \<Rightarrow>
          if apiKey = []
          then Inl (Error ''API Key is missing. Please set the API_KEY environment variable.'')
          else Inr apiKey)"

fun languageName :: "Language \<Rightarrow> string" where
  "languageName ENGLISH = ''English''"
| "languageName VIETNAMESE = ''Vietnamese''"

text \<open>The template literal \<^verbatim>\<open>prompt\<close>; \<open>CHR 0x0A\<close> is the line break and \<open>CHR 0x22\<close>
  the double quote.\<close>

definition translationPrompt :: "string \<Rightarrow> Language \<Rightarrow> Language \<Rightarrow> string" where
  "translationPrompt text sourceLang targetLang =
     [CHR 0x0A] @
     ''    You are a professional translator and subtitle aligner.'' @ [CHR 0x0A] @
     ''    Task:'' @ [CHR 0x0A] @
     ''    1. Split the following '' @ languageName sourceLang @
       '' text into logical sentences or phrases suitable for subtitles.'' @ [CHR 0x0A] @
     ''    2. Translate each sentence into '' @ languageName targetLang @ ''.'' @ [CHR 0x0A] @
     ''    3. Return a JSON array of objects, where each object has '' @ [CHR 0x22] @ ''original'' @
       [CHR 0x22] @ '' and '' @ [CHR 0x22] @ ''translated'' @ [CHR 0x22] @ '' fields.'' @ [CHR 0x0A] @
     [CHR 0x0A] @
     ''    Input Text: '' @ [CHR 0x22] @ text @ [CHR 0x22] @ [CHR 0x0A] @
     ''  ''"

definition translateRequest :: "string \<Rightarrow> Language \<Rightarrow> Request" where
  "translateRequest text sourceLang =
     (let targetLang = (if sourceLang = ENGLISH then VIETNAMESE else ENGLISH)
      in \<lparr>req_model = ''gemini-2.5-flash'',
          req_contents = translationPrompt text sourceLang targetLang,
          req_config = JsonSegmentArray\<rparr>)"

definition speechRequest :: "string \<Rightarrow> string \<Rightarrow> Request" where
  "speechRequest text voiceName =
     \<lparr>req_model = ''gemini-2.5-flash-preview-tts'',
      req_contents = text,
      req_config = AudioVoice voiceName\<rparr>"

text \<open>
  Each function returns the list of the remote requests it has issued, in order, and
  its outcome. \<^verbatim>\<open>response.text || "[]"\<close> replaces a missing or empty text by the text
  of the empty array; \<^verbatim>\<open>rawSegments.map((seg, index) => ...)\<close> numbers the segments
  from 0.
\<close>

definition translateAndSegment :: "Env \<Rightarrow> string \<Rightarrow> Language \<Rightarrow> Request list \<times> (error + SubtitleSegment list)" where
  "translateAndSegment env text sourceLang =
     (case getClient env of
        Inl e \<Rightarrow> ([], Inl e)
      | Inr ai \<Rightarrow>
          let request = translateRequest text sourceLang in
          (case generateContent env request of
             Inl e \<Rightarrow> ([request], Inl e)
           | Inr response \<Rightarrow>
               let responseText = (case resp_text response of
                                     None \<Rightarrow> ''[]''
                                   | Some t \<Rightarrow> if t = [] then ''[]'' else t)
               in (case JSON_parse env responseText of
                     Inl e \<Rightarrow> ([request], Inl e)
                   | Inr rawSegments \<Rightarrow>
                       ([request],
                        Inr (map (\<lambda>(index, seg).
                                   \<lparr>seg_id = index,
                                    original = raw_original seg,
                                    translated = raw_translated seg,
                                    startTime = Num 0,
                                    endTime = Num 0\<rparr>)
                                 (enumerate 0 rawSegments))))))"

text \<open>\<^verbatim>\<open>!audioData\<close> holds for a missing and for an empty payload.\<close>

definition generateSpeech :: "Env \<Rightarrow> string \<Rightarrow> string \<Rightarrow> Request list \<times> (error + string)" where
  "generateSpeech env text voiceName =
     (case getClient env of
        Inl e \<Rightarrow> ([], Inl e)
      | Inr ai \<Rightarrow>
          let request = speechRequest text voiceName in
          (case generateContent env request of
             Inl e \<Rightarrow> ([request], Inl e)
           | Inr response \<Rightarrow>
               (case resp_inlineData response of
                  None \<Rightarrow> ([request], Inl (Error ''Failed to generate audio.''))
                | Some audioData \<Rightarrow>
                    if audioData = [] then ([request], Inl (Error ''Failed to generate audio.''))
                    else ([request], Inr audioData))))"

text \<open>\<^verbatim>\<open>array.join(separator)\<close> on an array of strings.\<close>

fun join :: "string list \<Rightarrow> string \<Rightarrow> string" where
  "join [] separator = []"
| "join [x] separator = x"
| "join (x # y # ys) separator = x @ separator @ join (y # ys) separator"

definition processContent :: "Env \<Rightarrow> string \<Rightarrow> Language \<Rightarrow> string \<Rightarrow> Request list \<times> (error + GenerationResult)" where
  "processContent env text language voiceName =
     (case translateAndSegment env text language of
        (calls1, Inl e) \<Rightarrow> (calls1, Inl e)
      | (calls1, Inr segs) \<Rightarrow>
          let fullTextToSpeak = join (map original segs) '' '' in
          (case generateSpeech env fullTextToSpeak voiceName of
             (calls2, Inl e) \<Rightarrow> (calls1 @ calls2, Inl e)
           | (calls2, Inr audio) \<Rightarrow>
               (calls1 @ calls2, Inr \<lparr>audioBase64 = audio, segments = segs\<rparr>)))"

text \<open>Whether a request went to the speech synthesizer.\<close>

definition isSpeechRequest :: "Request \<Rightarrow> bool" where
  "isSpeechRequest request = (req_model request = ''gemini-2.5-flash-preview-tts'')"

text \<open>
  An excerpt of \<^verbatim>\<open>JSON.parse\<close>, for the examples: the text of the empty array, and
  one array of two objects.
\<close>

definition twoSegmentsJson :: string where
  "twoSegmentsJson =
     ''[{'' @ [CHR 0x22] @ ''original'' @ [CHR 0x22] @ '':'' @ [CHR 0x22] @ ''Hello'' @ [CHR 0x22] @ '','' @
     [CHR 0x22] @ ''translated'' @ [CHR 0x22] @ '':'' @ [CHR 0x22] @ ''Xin chao'' @ [CHR 0x22] @ ''},{'' @
     [CHR 0x22] @ ''original'' @ [CHR 0x22] @ '':'' @ [CHR 0x22] @ ''World!!'' @ [CHR 0x22] @ '','' @
     [CHR 0x22] @ ''translated'' @ [CHR 0x22] @ '':'' @ [CHR 0x22] @ ''The gioi!!'' @ [CHR 0x22] @ ''}]''"

definition JSON_parse_excerpt :: "string \<Rightarrow> error + RawSegment list" where
  "JSON_parse_excerpt s =
     (if s = ''[]'' then Inr []
      else if s = twoSegmentsJson
      then Inr [\<lparr>raw_original = ''Hello'', raw_translated = ''Xin chao''\<rparr>,
                \<lparr>raw_original = ''World!!'', raw_translated = ''The gioi!!''\<rparr>]
      else Inl SyntaxError)"






section \<open>Seek bar (SeekBar.tsx)\<close>



section \<open>Application state and handlers (App.tsx)\<close>

datatype Gender = Male | Female

record VoiceOption =
  name :: string
  voice_id :: string
  gender :: Gender

definition VOICES :: "VoiceOption list" where
  "VOICES =
     [\<lparr>name = ''Puck'', voice_id = ''Puck'', gender = Male\<rparr>,
      \<lparr>name = ''Charon'', voice_id = ''Charon'', gender = Male\<rparr>,
      \<lparr>name = ''Kore'', voice_id = ''Kore'', gender = Female\<rparr>,
      \<lparr>name = ''Fenrir'', voice_id = ''Fenrir'', gender = Male\<rparr>,
      \<lparr>name = ''Zephyr'', voice_id = ''Zephyr'', gender = Female\<rparr>]"

text \<open>
  The \<^verbatim>\<open>HTMLAudioElement\<close> behind \<^verbatim>\<open>audioRef\<close>, as far as the handlers touch it:
  the attributes they assign and the paused flag. \<open>el_currentTime\<close> is the value last
  assigned to \<^verbatim>\<open>currentTime\<close>; what the element's own seek algorithm does with it is
  outside the repository. \<^verbatim>\<open>load()\<close> restarts the element: it pauses, returns to
  position 0 and resets the playback rate to the default 1.
\<close>

record AudioElement =
  src :: string
  paused :: bool
  el_currentTime :: jsnum
  el_playbackRate :: jsnum
  el_volume :: jsnum

definition audio_pause :: "AudioElement \<Rightarrow> AudioElement" where
  "audio_pause a = a\<lparr>paused := True\<rparr>"

definition audio_load :: "AudioElement \<Rightarrow> AudioElement" where
  "audio_load a = a\<lparr>paused := True, el_currentTime := Num 0, el_playbackRate := Num 1\<rparr>"

text \<open>
  The state of the component: the \<^verbatim>\<open>useState\<close> variables under their names (the
  segment list is \<open>shownSegments\<close>, since \<open>segments\<close> is the field of the generation
  result) and the audio element of \<^verbatim>\<open>audioRef\<close>, \<open>None\<close> while the ref is null.
\<close>

record AppState =
  inputText :: string
  selectedLang :: Language
  selectedVoice :: VoiceOption
  isGenerating :: bool
  audioUrl :: "string option"
  isPlaying :: bool
  currentTime :: jsnum
  duration :: jsnum
  shownSegments :: "SubtitleSegment list"
  seekStep :: jsnum
  playbackRate :: jsnum
  volume :: jsnum
  audioRef :: "AudioElement option"

text \<open>
  What the component takes from outside: the remote service, \<^verbatim>\<open>window.atob\<close> and
  \<^verbatim>\<open>URL.createObjectURL\<close>. What it shows besides its state: the console message and
  the alert of the \<^verbatim>\<open>catch\<close> block.
\<close>

record AppEnv =
  api :: Env
  window_atob :: "string \<Rightarrow> error + string"
  URL_createObjectURL :: "Blob \<Rightarrow> string"

datatype Effect = ConsoleError string error | Alert string

text \<open>
  \<^verbatim>\<open>string.trim()\<close> removes white space and line terminators from both ends; among
  the characters of the model these are the codes 9 to 13, 32 and 160.
\<close>

definition isWhiteSpace :: "char \<Rightarrow> bool" where
  "isWhiteSpace c = ((of_char c :: nat) \<in> {9, 10, 11, 12, 13, 32, 160})"

definition trim :: "string \<Rightarrow> string" where
  "trim s = rev (dropWhile isWhiteSpace (rev (dropWhile isWhiteSpace s)))"

text \<open>
  \<^verbatim>\<open>handleGenerate\<close>, from the click to the end of the \<^verbatim>\<open>finally\<close> block, with no
  other event in between. It returns the new state, the remote requests issued and the
  messages shown. \<open>cleared\<close> is the state after the five resets and the clean-up of the
  audio element, which come before the \<^verbatim>\<open>try\<close>.
\<close>

definition handleGenerate :: "AppEnv \<Rightarrow> AppState \<Rightarrow> AppState \<times> Request list \<times> Effect list" where
  "handleGenerate env s =
     (if trim (inputText s) = [] then (s, [], [])
      else
        let reset = s\<lparr>isGenerating := True, audioUrl := None, shownSegments := [],
                       currentTime := Num 0, duration := Num 0\<rparr>;
            cleared = reset\<lparr>audioRef :=
                        map_option (\<lambda>a. (audio_pause a)\<lparr>src := []\<rparr>) (audioRef reset)\<rparr>;
            (calls, outcome) =
               processContent (api env) (inputText s) (selectedLang s) (name (selectedVoice s));
            attempt =
               bindE outcome (\<lambda>result.
               bindE (base64ToWavBlob (window_atob env) (audioBase64 result) None) (\<lambda>blob.
               let url = URL_createObjectURL env blob in
               Inr (cleared\<lparr>audioUrl := Some url,
                            shownSegments := segments result,
                            audioRef :=
                              map_option (\<lambda>a. (audio_load (a\<lparr>src := url\<rparr>))
                                                  \<lparr>el_playbackRate := playbackRate s,
                                                   el_volume := volume s\<rparr>)
                                         (audioRef cleared)\<rparr>)))
        in case attempt of
             Inr loaded \<Rightarrow> (loaded\<lparr>isGenerating := False\<rparr>, calls, [])
           | Inl err \<Rightarrow>
               (cleared\<lparr>isGenerating := False\<rparr>, calls,
                [ConsoleError ''Generation failed:'' err,
                 Alert ''Failed to generate content. Please check your API Key and try again.'']))"



text \<open>
  A state in which a generated audio is loaded and playing, and a service without an
  API key, for the examples.
\<close>

definition playingState :: AppState where
  "playingState =
     \<lparr>inputText = ''Hello  World!!'',
      selectedLang = ENGLISH,
      selectedVoice = \<lparr>name = ''Puck'', voice_id = ''Puck'', gender = Male\<rparr>,
      isGenerating = False,
      audioUrl = Some ''blob:previous'',
      isPlaying = True,
      currentTime = Num 3,
      duration = Num 12,
      shownSegments = alignSegments helloWorld (Num 12),
      seekStep = Num 5,
      playbackRate = Num 1,
      volume = Num 1,
      audioRef = Some \<lparr>src = ''blob:previous'', paused = False, el_currentTime = Num 3,
                        el_playbackRate = Num 1, el_volume = Num 1\<rparr>\<rparr>"

definition noKeyEnv :: AppEnv where
  "noKeyEnv =
     \<lparr>api = \<lparr>API_KEY = None,
              generateContent = (\<lambda>request. Inl (Error ''unreachable'')),
              JSON_parse = JSON_parse_excerpt\<rparr>,
      window_atob = atob_excerpt,
      URL_createObjectURL = (\<lambda>blob. ''blob:next'')\<rparr>"

section \<open>Properties of the timeline alignment\<close>

lemma js_le_Num [simp]: "js_le (Num a) (Num b) = (a \<le> b)"
  by (auto simp: js_le_def)

lemma charCount_Nil [simp]: "charCount [] = 0"
  by (simp add: charCount_def)

lemma charCount_Cons [simp]: "charCount (seg # rest) = length (original seg) + charCount rest"
  by (simp add: charCount_def)

lemma totalChars_foldl:
  "foldl (\<lambda>sum seg. js_add sum (Num (real (length (original seg))))) (Num a) segs
     = Num (a + real (charCount segs))"
  by (induction segs arbitrary: a) (simp_all add: add.assoc)

lemma totalChars_Num: "totalChars segs = Num (real (charCount segs))"
  by (simp add: totalChars_def totalChars_foldl)

lemma alignMap_length [simp]:
  "length (alignMap tot dur cur segs) = length segs"
  by (induction segs arbitrary: cur) (simp_all add: Let_def)












lemma js_add_NaN_right [simp]: "js_add a NaN = NaN"
  by (cases a) simp_all

lemma alignMap_zero_total_NaN:
  assumes "charCount segs = 0" and "i < length segs"
  shows "alignMap (Num 0) dur NaN segs ! i = (segs ! i)\<lparr>startTime := NaN, endTime := NaN\<rparr>"
  using assms
proof (induction segs arbitrary: i)
  case Nil
  then show ?case by simp
next
  case (Cons seg rest)
  then show ?case by (cases i) (simp_all add: Let_def signed_inf_def)
qed

text \<open>
  C10. The division by the total character count is unguarded: for every
  non-empty segment list whose source texts are all empty and every duration (finite or
  not), every returned \<open>endTime\<close> is \<open>NaN\<close> and every returned \<open>startTime\<close> but the
  first is \<open>NaN\<close>; the first segment starts at 0, the initial value of the cursor.
\<close>

theorem alignSegments_zero_total:
  assumes "segs \<noteq> []" and "charCount segs = 0"
  shows "\<forall>i<length segs.
           endTime (alignSegments segs dur ! i) = NaN \<and>
           startTime (alignSegments segs dur ! i) = (if i = 0 then Num 0 else NaN)"
proof (intro allI impI)
  fix i assume i: "i < length segs"
  obtain seg rest where sr: "segs = seg # rest"
    using assms(1) by (cases segs) auto
  have z: "length (original seg) = 0" "charCount rest = 0"
    using assms(2) sr by simp_all
  have out: "alignSegments segs dur =
      seg\<lparr>startTime := Num 0, endTime := NaN\<rparr> # alignMap (Num 0) dur NaN rest"
    using z by (simp add: alignSegments_def totalChars_Num sr Let_def signed_inf_def)
  show "endTime (alignSegments segs dur ! i) = NaN \<and>
           startTime (alignSegments segs dur ! i) = (if i = 0 then Num 0 else NaN)"
  proof (cases i)
    case 0
    then show ?thesis by (simp add: out)
  next
    case (Suc k)
    with i sr have "k < length rest" by simp
    from alignMap_zero_total_NaN [OF z(2) this] Suc show ?thesis
      by (simp add: out)
  qed
qed

theorem alignSegments_zero_total_witness:
  "silentSegments \<noteq> [] \<and> charCount silentSegments = 0 \<and>
   map (\<lambda>seg. (startTime seg, endTime seg)) (alignSegments silentSegments (Num 12))
     = [(Num 0, NaN), (NaN, NaN)]"
proof -
  have h1: "silentSegments \<noteq> []" by (simp add: silentSegments_def)
  have h2: "charCount silentSegments = 0" by (simp add: silentSegments_def)
  have len: "length silentSegments = 2" by (simp add: silentSegments_def)
  have l2: "length (alignSegments silentSegments (Num 12)) = 2"
    by (simp add: alignSegments_def len)
  note main = alignSegments_zero_total [OF h1 h2, of "Num 12"]
  from main len have a0: "endTime (alignSegments silentSegments (Num 12) ! 0) = NaN"
    and b0: "startTime (alignSegments silentSegments (Num 12) ! 0) = Num 0"
    and a1: "endTime (alignSegments silentSegments (Num 12) ! 1) = NaN"
    and b1: "startTime (alignSegments silentSegments (Num 12) ! 1) = NaN"
    by simp_all
  obtain x y where xy: "alignSegments silentSegments (Num 12) = [x, y]"
    using l2 by (metis (no_types) length_0_conv length_Suc_conv numeral_2_eq_2)
  from a0 b0 a1 b1 h1 h2 show ?thesis
    by (simp add: xy)
qed

text \<open>The first segment's \<open>startTime\<close> is the number 0, not \<open>NaN\<close>.\<close>

theorem alignSegments_first_start_counterexample:
  "charCount silentSegments = 0 \<and>
   startTime (alignSegments silentSegments (Num 12) ! 0) = Num 0 \<and>
   startTime (alignSegments silentSegments (Num 12) ! 0) \<noteq> NaN"
  by (simp add: alignSegments_def totalChars_def silentSegments_def Let_def signed_inf_def)

section \<open>Properties of the container encoder\<close>

lemma word32_of_bytes_split [simp]:
  "word32_of_bytes (ucast w) (ucast (drop_bit 8 w)) (ucast (drop_bit 16 w)) (ucast (drop_bit 24 w)) = w"
  unfolding word32_of_bytes_def
  apply (rule bit_word_eqI)
  apply (auto simp: bit_simps)
  subgoal for n by (cases "n < 24") simp_all
  done

lemma word16_of_bytes_split [simp]:
  "word16_of_bytes (ucast w) (ucast (drop_bit 8 w)) = w"
  unfolding word16_of_bytes_def
  apply (rule bit_word_eqI)
  apply (auto simp: bit_simps)
  done

lemma js_trunc_of_nat [simp]: "js_trunc (real n) = int n"
  by (simp add: js_trunc_def)

lemma ToUint_of_nat: "ToUint (Num (real n)) = word_of_nat n"
  by simp

lemma ToUint_charCodeAt: "i < length s \<Longrightarrow> (ToUint (charCodeAt s i) :: byte) = of_char (s ! i)"
proof -
  assume "i < length s"
  then have "(ToUint (charCodeAt s i) :: byte) = word_of_nat (of_char (s ! i))"
    by (simp only: charCodeAt_def if_True ToUint_of_nat)
  then show ?thesis by (simp only: of_nat_of_char)
qed

lemma split_at4:
  assumes "off + 4 \<le> length v"
  obtains x0 x1 x2 x3 where "v = take off v @ x0 # x1 # x2 # x3 # drop (off + 4) v"
proof -
  have "drop off v = v ! off # v ! (off + 1) # v ! (off + 2) # v ! (off + 3) # drop (off + 4) v"
    using assms by (simp add: Cons_nth_drop_Suc numeral_eq_Suc)
  then have "v = take off v @ v ! off # v ! (off + 1) # v ! (off + 2) # v ! (off + 3) # drop (off + 4) v"
    by (metis append_take_drop_id)
  then show thesis by (rule that)
qed

lemma split_at2:
  assumes "off + 2 \<le> length v"
  obtains x0 x1 where "v = take off v @ x0 # x1 # drop (off + 2) v"
proof -
  have "drop off v = v ! off # v ! (off + 1) # drop (off + 2) v"
    using assms by (simp add: Cons_nth_drop_Suc numeral_eq_Suc)
  then have "v = take off v @ v ! off # v ! (off + 1) # drop (off + 2) v"
    by (metis append_take_drop_id)
  then show thesis by (rule that)
qed

lemma update_block4:
  "(pre @ x0 # x1 # x2 # x3 # post)
     [length pre := a, length pre + 1 := b, length pre + 2 := c, length pre + 3 := d]
   = pre @ a # b # c # d # post"
  by (simp add: list_update_append numeral_eq_Suc)

lemma update_block2:
  "(pre @ x0 # x1 # post)[length pre := a, length pre + 1 := b] = pre @ a # b # post"
  by (simp add: list_update_append)

lemma update4:
  assumes "off + 4 \<le> length v"
  shows "v[off := a, off + 1 := b, off + 2 := c, off + 3 := d]
           = take off v @ [a, b, c, d] @ drop (off + 4) v"
proof -
  obtain x0 x1 x2 x3 where v: "v = take off v @ x0 # x1 # x2 # x3 # drop (off + 4) v"
    using assms by (rule split_at4)
  have len: "length (take off v) = off" using assms by simp
  show ?thesis
    using update_block4 [of "take off v" x0 x1 x2 x3 "drop (off + 4) v" a b c d]
    unfolding len v [symmetric] by simp
qed

lemma update2:
  assumes "off + 2 \<le> length v"
  shows "v[off := a, off + 1 := b] = take off v @ [a, b] @ drop (off + 2) v"
proof -
  obtain x0 x1 where v: "v = take off v @ x0 # x1 # drop (off + 2) v"
    using assms by (rule split_at2)
  have len: "length (take off v) = off" using assms by simp
  show ?thesis
    using update_block2 [of "take off v" x0 x1 "drop (off + 2) v" a b]
    unfolding len v [symmetric] by simp
qed

lemma tagBytes_drop:
  "i < length s \<Longrightarrow> tagBytes (drop i s) = of_char (s ! i) # tagBytes (drop (Suc i) s)"
  by (simp add: tagBytes_def Cons_nth_drop_Suc [symmetric])

lemma take_Suc_update:
  "n < length xs \<Longrightarrow> take (Suc n) (xs[n := c]) = take n xs @ [c]"
  by (simp add: take_Suc_conv_app_nth)

lemma writeString_loop_ok:
  "offset + length s \<le> length view \<Longrightarrow> i \<le> length s \<Longrightarrow>
     writeString_loop view offset s i =
       Inr (take (offset + i) view @ tagBytes (drop i s) @ drop (offset + length s) view)"
proof (induction view offset s i rule: writeString_loop.induct)
  case (1 view offset string i)
  show ?case
  proof (cases "i < length string")
    case True
    let ?view' = "view[offset + i := of_char (string ! i)]"
    have set: "setUint8 view (offset + i) (charCodeAt string i) = Inr ?view'"
      using True "1.prems" by (simp add: setUint8_def ToUint_charCodeAt)
    have "writeString_loop ?view' offset string (Suc i) =
       Inr (take (offset + Suc i) ?view' @ tagBytes (drop (Suc i) string)
            @ drop (offset + length string) ?view')"
      using "1.IH" [OF True set] True "1.prems" by simp
    moreover have "take (offset + Suc i) ?view' = take (offset + i) view @ [of_char (string ! i)]"
      using True "1.prems" take_Suc_update [of "offset + i" view] by (simp only: add_Suc_right)
    moreover have "drop (offset + length string) ?view' = drop (offset + length string) view"
      using True by simp
    ultimately show ?thesis
      using True set
      by (subst writeString_loop.simps) (simp add: tagBytes_drop)
  next
    case False
    with "1.prems" have "i = length string" by simp
    then show ?thesis
      by (subst writeString_loop.simps) (simp add: tagBytes_def)
  qed
qed

lemma writeString_ok:
  "offset + length s \<le> length view \<Longrightarrow>
     writeString view offset s = Inr (take offset view @ tagBytes s @ drop (offset + length s) view)"
  using writeString_loop_ok [of offset s view 0] by (simp add: writeString_def)

lemma pcm_loop_ok:
  "len = length s \<Longrightarrow> length buffer = 44 + len \<Longrightarrow> i \<le> len \<Longrightarrow>
     pcm_loop buffer s len i = take (44 + i) buffer @ tagBytes (drop i s)"
proof (induction buffer s len i rule: pcm_loop.induct)
  case (1 buffer binaryString len i)
  show ?case
  proof (cases "i < len")
    case True
    let ?b' = "buffer[44 + i := of_char (binaryString ! i)]"
    have set: "uint8array_set buffer 44 i (charCodeAt binaryString i) = ?b'"
      using True "1.prems" by (simp add: uint8array_set_def ToUint_charCodeAt)
    have "pcm_loop ?b' binaryString len (Suc i) = take (44 + Suc i) ?b' @ tagBytes (drop (Suc i) binaryString)"
      using "1.IH" [OF True] True "1.prems" unfolding set by simp
    moreover have "take (44 + Suc i) ?b' = take (44 + i) buffer @ [of_char (binaryString ! i)]"
      using True "1.prems" take_Suc_update [of "44 + i" buffer] by (simp only: add_Suc_right)
    ultimately show ?thesis
      using True set "1.prems"
      by (subst pcm_loop.simps) (simp add: tagBytes_drop)
  next
    case False
    with "1.prems" have "i = length binaryString" by simp
    then show ?thesis
      using "1.prems" by (subst pcm_loop.simps) (simp add: tagBytes_def)
  qed
qed

lemma setUint32_le:
  "off + 4 \<le> length v \<Longrightarrow>
     setUint32 v off x True = Inr (take off v @ le32 (ToUint x) @ drop (off + 4) v)"
  using update4 [of off v "ucast (ToUint x :: 32 word)" "ucast (drop_bit 8 (ToUint x :: 32 word))"
      "ucast (drop_bit 16 (ToUint x :: 32 word))" "ucast (drop_bit 24 (ToUint x :: 32 word))"]
  by (simp add: setUint32_def Let_def le32_def)

lemma setUint16_le:
  "off + 2 \<le> length v \<Longrightarrow>
     setUint16 v off x True = Inr (take off v @ le16 (ToUint x) @ drop (off + 2) v)"
  using update2 [of off v "ucast (ToUint x :: 16 word)" "ucast (drop_bit 8 (ToUint x :: 16 word))"]
  by (simp add: setUint16_def Let_def le16_def)

lemma length_le32 [simp]: "length (le32 w) = 4" by (simp add: le32_def)
lemma length_le16 [simp]: "length (le16 w) = 2" by (simp add: le16_def)
lemma length_tagBytes [simp]: "length (tagBytes s) = length s" by (simp add: tagBytes_def)

lemma js_trunc_numeral [simp]: "js_trunc (numeral n) = numeral n"
  by (simp add: js_trunc_def)

lemma js_trunc_0 [simp]: "js_trunc 0 = 0"
  by (simp add: js_trunc_def)

lemma js_trunc_1 [simp]: "js_trunc 1 = 1"
  by (simp add: js_trunc_def)

lemma header_writes:
  "bindE (writeString (replicate (44 + len) 0) 0 ''RIFF'') (\<lambda>view.
      bindE (setUint32 view 4 (js_add (Num 36) (Num (real len))) True) (\<lambda>view.
      bindE (writeString view 8 ''WAVE'') (\<lambda>view.
      bindE (writeString view 12 ''fmt '') (\<lambda>view.
      bindE (setUint32 view 16 (Num 16) True) (\<lambda>view.
      bindE (setUint16 view 20 (Num 1) True) (\<lambda>view.
      bindE (setUint16 view 22 (Num 1) True) (\<lambda>view.
      bindE (setUint32 view 24 sampleRate True) (\<lambda>view.
      bindE (setUint32 view 28 (js_mul sampleRate (Num 2)) True) (\<lambda>view.
      bindE (setUint16 view 32 (Num 2) True) (\<lambda>view.
      bindE (setUint16 view 34 (Num 16) True) (\<lambda>view.
      bindE (writeString view 36 ''data'') (\<lambda>view.
      bindE (setUint32 view 40 (Num (real len)) True) (\<lambda>view. k view)))))))))))))
   = k (wavHeader len sampleRate @ replicate len 0)"
  by (simp add: bindE_def writeString_ok setUint32_le setUint16_le wavHeader_def)


lemma base64ToWavBlob_layout:
  "base64ToWavBlob atob base64 sampleRateArg =
     bindE (atob base64) (\<lambda>binaryString.
       Inr \<lparr>blob_bytes =
              wavHeader (length binaryString) (case sampleRateArg of None \<Rightarrow> Num 24000 | Some r \<Rightarrow> r)
                @ tagBytes binaryString,
            blob_type = ''audio/wav''\<rparr>)"
proof -
  have pcm: "pcm_loop (wavHeader (length s) r @ replicate (length s) 0) s (length s) 0
               = wavHeader (length s) r @ tagBytes s" for s r
    using pcm_loop_ok [of "length s" s "wavHeader (length s) r @ replicate (length s) 0" 0]
    by (simp add: wavHeader_def)
  show ?thesis
    unfolding base64ToWavBlob_def Let_def
    by (simp only: header_writes pcm)
qed

lemma ToUint_36_plus: "ToUint (js_add (Num 36) (Num (real n))) = (word_of_nat (36 + n) :: 32 word)"
proof -
  have "36 + real n = real (36 + n)" by simp
  then show ?thesis by (simp only: js_add.simps ToUint_of_nat)
qed

lemma ToUint_times2: "ToUint (js_mul (Num (real r)) (Num 2)) = (word_of_nat (r * 2) :: 32 word)"
proof -
  have "real r * 2 = real (r * 2)" by simp
  then show ?thesis by (simp only: js_mul.simps ToUint_of_nat)
qed

lemma wavHeader_nat:
  "wavHeader len (Num (real r)) =
     tagBytes ''RIFF'' @ le32 (word_of_nat (36 + len)) @ tagBytes ''WAVE'' @
     tagBytes ''fmt '' @ le32 16 @ le16 1 @ le16 1 @
     le32 (word_of_nat r) @ le32 (word_of_nat (r * 2)) @ le16 2 @ le16 16 @
     tagBytes ''data'' @ le32 (word_of_nat len)"
  by (simp only: wavHeader_def ToUint_36_plus ToUint_times2 ToUint_of_nat)

lemma length_wavHeader [simp]: "length (wavHeader len sampleRate) = 44"
  by (simp add: wavHeader_def)

lemma header_fields:
  fixes rest :: "byte list"
    and fileSize fmtLen rate byteRate dataLen :: "32 word"
    and fmt channels blockAlign bits :: "16 word"
  defines "b \<equiv> tagBytes ''RIFF'' @ le32 fileSize @ tagBytes ''WAVE'' @
     tagBytes ''fmt '' @ le32 fmtLen @ le16 fmt @ le16 channels @
     le32 rate @ le32 byteRate @ le16 blockAlign @ le16 bits @
     tagBytes ''data'' @ le32 dataLen @ rest"
  shows "take 4 b = tagBytes ''RIFF''" and "getUint32 b 4 = fileSize"
    and "take 4 (drop 8 b) = tagBytes ''WAVE''" and "take 4 (drop 12 b) = tagBytes ''fmt ''"
    and "getUint32 b 16 = fmtLen" and "getUint16 b 20 = fmt" and "getUint16 b 22 = channels"
    and "getUint32 b 24 = rate" and "getUint32 b 28 = byteRate" and "getUint16 b 32 = blockAlign"
    and "getUint16 b 34 = bits" and "take 4 (drop 36 b) = tagBytes ''data''"
    and "getUint32 b 40 = dataLen" and "drop 44 b = rest" and "take 44 b @ rest = b"
  unfolding b_def
  by (simp_all add: tagBytes_def le32_def le16_def getUint32_def getUint16_def)

lemma encode_Some:
  assumes "atob base64 = Inr binaryString"
  shows "base64ToWavBlob atob base64 (Some sampleRate) =
     Inr \<lparr>blob_bytes = wavHeader (length binaryString) sampleRate @ tagBytes binaryString,
          blob_type = ''audio/wav''\<rparr>"
  by (simp add: base64ToWavBlob_layout assms bindE_def)

lemma unat_word32_of_nat: "n < 2 ^ 32 \<Longrightarrow> unat (word_of_nat n :: 32 word) = n"
  by (simp add: unat_of_nat)

text \<open>
  C1. For every decoded payload shorter than \<open>2 ^ 32 - 36\<close> bytes (the empty
  one included) and every integer sample rate \<open>r\<close> with \<open>0 < r < 2 ^ 31\<close>, the encoder
  returns a blob (it does not throw) whose header fields, read little-endian, are: the tag
  \<open>RIFF\<close>; the file size minus 8, which is 36 plus the payload length; the tag \<open>WAVE\<close>;
  the tag \<open>fmt \<close> with length 16; encoding code 1; channel count 1; the sample rate \<open>r\<close>;
  the byte rate \<open>r * blockAlign\<close>; block alignment \<open>channelCount * 2 = 2\<close>; 16 bits per
  sample; the tag \<open>data\<close>; and the payload length.
\<close>

theorem base64ToWavBlob_header:
  assumes "atob base64 = Inr binaryString"
    and "0 < r" and "r < 2 ^ 31" and "length binaryString < 2 ^ 32 - 36"
  shows "\<exists>blob. base64ToWavBlob atob base64 (Some (Num (real r))) = Inr blob \<and>
     blob_type blob = ''audio/wav'' \<and>
     take 4 (blob_bytes blob) = tagBytes ''RIFF'' \<and>
     unat (getUint32 (blob_bytes blob) 4) = 36 + length binaryString \<and>
     unat (getUint32 (blob_bytes blob) 4) = length (blob_bytes blob) - 8 \<and>
     take 4 (drop 8 (blob_bytes blob)) = tagBytes ''WAVE'' \<and>
     take 4 (drop 12 (blob_bytes blob)) = tagBytes ''fmt '' \<and>
     unat (getUint32 (blob_bytes blob) 16) = 16 \<and>
     unat (getUint16 (blob_bytes blob) 20) = 1 \<and>
     unat (getUint16 (blob_bytes blob) 22) = 1 \<and>
     unat (getUint32 (blob_bytes blob) 24) = r \<and>
     unat (getUint32 (blob_bytes blob) 28) = r * unat (getUint16 (blob_bytes blob) 32) \<and>
     unat (getUint16 (blob_bytes blob) 32) = unat (getUint16 (blob_bytes blob) 22) * 2 \<and>
     unat (getUint16 (blob_bytes blob) 34) = 16 \<and>
     take 4 (drop 36 (blob_bytes blob)) = tagBytes ''data'' \<and>
     unat (getUint32 (blob_bytes blob) 40) = length binaryString \<and>
     length (blob_bytes blob) = 44 + length binaryString"
proof -
  define B where "B = wavHeader (length binaryString) (Num (real r)) @ tagBytes binaryString"
  let ?len = "length binaryString"
  have b: "B = tagBytes ''RIFF'' @ le32 (word_of_nat (36 + ?len)) @ tagBytes ''WAVE'' @
     tagBytes ''fmt '' @ le32 16 @ le16 1 @ le16 1 @
     le32 (word_of_nat r) @ le32 (word_of_nat (r * 2)) @ le16 2 @ le16 16 @
     tagBytes ''data'' @ le32 (word_of_nat ?len) @ tagBytes binaryString"
    by (simp only: B_def wavHeader_nat append_assoc)
  note f = header_fields [of "word_of_nat (36 + ?len)" 16 1 1 "word_of_nat r"
      "word_of_nat (r * 2)" 2 16 "word_of_nat ?len" "tagBytes binaryString", folded b]
  have u1: "unat (word_of_nat (36 + ?len) :: 32 word) = 36 + ?len"
    by (rule unat_word32_of_nat) (use assms(4) in simp)
  have u2: "unat (word_of_nat r :: 32 word) = r"
    by (rule unat_word32_of_nat) (use assms(3) in simp)
  have u3: "unat (word_of_nat (r * 2) :: 32 word) = r * 2"
    by (rule unat_word32_of_nat) (use assms(3) in simp)
  have u4: "unat (word_of_nat ?len :: 32 word) = ?len"
    by (rule unat_word32_of_nat) (use assms(4) in simp)
  have len: "length B = 44 + ?len" by (simp add: B_def)
  have enc: "base64ToWavBlob atob base64 (Some (Num (real r)))
               = Inr \<lparr>blob_bytes = B, blob_type = ''audio/wav''\<rparr>"
    unfolding B_def using assms(1) by (rule encode_Some)
  have "blob_type \<lparr>blob_bytes = B, blob_type = ''audio/wav''\<rparr> = ''audio/wav''"
    and "take 4 B = tagBytes ''RIFF''"
    and "unat (getUint32 B 4) = 36 + ?len"
    and "unat (getUint32 B 4) = length B - 8"
    and "take 4 (drop 8 B) = tagBytes ''WAVE''"
    and "take 4 (drop 12 B) = tagBytes ''fmt ''"
    and "unat (getUint32 B 16) = 16"
    and "unat (getUint16 B 20) = 1"
    and "unat (getUint16 B 22) = 1"
    and "unat (getUint32 B 24) = r"
    and "unat (getUint32 B 28) = r * unat (getUint16 B 32)"
    and "unat (getUint16 B 32) = unat (getUint16 B 22) * 2"
    and "unat (getUint16 B 34) = 16"
    and "take 4 (drop 36 B) = tagBytes ''data''"
    and "unat (getUint32 B 40) = ?len"
    unfolding f u1 u2 u3 u4 len by simp_all
  with enc len show ?thesis by simp
qed

theorem base64ToWavBlob_header_witness:
  "atob_excerpt [] = Inr [] \<and> (0::nat) < 24000 \<and> (24000::nat) < 2 ^ 31 \<and>
   length ([] :: string) < 2 ^ 32 - 36 \<and>
   (\<exists>blob. base64ToWavBlob atob_excerpt [] (Some (Num 24000)) = Inr blob \<and>
      length (blob_bytes blob) = 44 \<and>
      take 4 (blob_bytes blob) = tagBytes ''RIFF'' \<and>
      unat (getUint32 (blob_bytes blob) 4) = 36 \<and>
      unat (getUint32 (blob_bytes blob) 24) = 24000 \<and>
      unat (getUint32 (blob_bytes blob) 28) = 48000 \<and>
      unat (getUint32 (blob_bytes blob) 40) = 0)"
proof -
  have h1: "atob_excerpt [] = Inr []" by (simp add: atob_excerpt_def)
  have h2: "(0::nat) < 24000" by simp
  have h3: "(24000::nat) < 2 ^ 31" by simp
  have h4: "length ([] :: string) < 2 ^ 32 - 36" by simp
  from base64ToWavBlob_header [of atob_excerpt "[]" "[]" 24000, OF h1 h2 h3 h4]
  obtain blob where "base64ToWavBlob atob_excerpt [] (Some (Num (real 24000))) = Inr blob"
    and "length (blob_bytes blob) = 44 + length ([] :: string)"
    and "take 4 (blob_bytes blob) = tagBytes ''RIFF''"
    and "unat (getUint32 (blob_bytes blob) 4) = 36 + length ([] :: string)"
    and "unat (getUint32 (blob_bytes blob) 24) = 24000"
    and "unat (getUint32 (blob_bytes blob) 28) = 24000 * unat (getUint16 (blob_bytes blob) 32)"
    and "unat (getUint16 (blob_bytes blob) 32) = unat (getUint16 (blob_bytes blob) 22) * 2"
    and "unat (getUint16 (blob_bytes blob) 22) = 1"
    and "unat (getUint32 (blob_bytes blob) 40) = length ([] :: string)"
    by blast
  then have "base64ToWavBlob atob_excerpt [] (Some (Num 24000)) = Inr blob \<and>
      length (blob_bytes blob) = 44 \<and>
      take 4 (blob_bytes blob) = tagBytes ''RIFF'' \<and>
      unat (getUint32 (blob_bytes blob) 4) = 36 \<and>
      unat (getUint32 (blob_bytes blob) 24) = 24000 \<and>
      unat (getUint32 (blob_bytes blob) 28) = 48000 \<and>
      unat (getUint32 (blob_bytes blob) 40) = 0"
    by simp
  then have "\<exists>blob. base64ToWavBlob atob_excerpt [] (Some (Num 24000)) = Inr blob \<and>
      length (blob_bytes blob) = 44 \<and>
      take 4 (blob_bytes blob) = tagBytes ''RIFF'' \<and>
      unat (getUint32 (blob_bytes blob) 4) = 36 \<and>
      unat (getUint32 (blob_bytes blob) 24) = 24000 \<and>
      unat (getUint32 (blob_bytes blob) 28) = 48000 \<and>
      unat (getUint32 (blob_bytes blob) 40) = 0" ..
  with h1 h2 h3 h4 show ?thesis by blast
qed

text \<open>
  At the sample rate \<open>2 ^ 31\<close> the product \<open>sampleRate * 2\<close> is \<open>2 ^ 32\<close>, which the
  32-bit write reduces to 0: the byte rate field is not \<open>sampleRate * blockAlign\<close>.
\<close>

lemma encode_empty_big:
  "base64ToWavBlob atob_excerpt [] (Some (Num 2147483648)) =
     Inr \<lparr>blob_bytes = [82, 73, 70, 70, 36, 0, 0, 0, 87, 65, 86, 69, 102, 109, 116, 32,
                       16, 0, 0, 0, 1, 0, 1, 0, 0, 0, 0, 128, 0, 0, 0, 0, 2, 0, 16, 0,
                       100, 97, 116, 97, 0, 0, 0, 0],
          blob_type = ''audio/wav''\<rparr>"
  by (simp add: base64ToWavBlob_layout atob_excerpt_def bindE_def wavHeader_def tagBytes_def
        le32_def le16_def)

theorem byteRate_wraps_counterexample:
  "base64ToWavBlob atob_excerpt [] (Some (Num 2147483648)) =
     Inr \<lparr>blob_bytes = [82, 73, 70, 70, 36, 0, 0, 0, 87, 65, 86, 69, 102, 109, 116, 32,
                       16, 0, 0, 0, 1, 0, 1, 0, 0, 0, 0, 128, 0, 0, 0, 0, 2, 0, 16, 0,
                       100, 97, 116, 97, 0, 0, 0, 0],
          blob_type = ''audio/wav''\<rparr> \<and>
   unat (getUint32 (blob_bytes (projr (base64ToWavBlob atob_excerpt [] (Some (Num 2147483648))))) 24)
     = 2147483648 \<and>
   unat (getUint16 (blob_bytes (projr (base64ToWavBlob atob_excerpt [] (Some (Num 2147483648))))) 32)
     = 2 \<and>
   unat (getUint32 (blob_bytes (projr (base64ToWavBlob atob_excerpt [] (Some (Num 2147483648))))) 28)
     = 0 \<and>
   unat (getUint32 (blob_bytes (projr (base64ToWavBlob atob_excerpt [] (Some (Num 2147483648))))) 28)
     \<noteq> 2147483648 * 2"
  unfolding encode_empty_big
  by (simp add: getUint32_def getUint16_def word32_of_bytes_def word16_of_bytes_def)

text \<open>
  C2. For every decoded payload \<open>b\<close> shorter than \<open>2 ^ 32\<close> bytes and every
  integer sample rate \<open>r\<close> with \<open>0 < r < 2 ^ 32\<close>, the output of the encoder is a 44-byte
  header followed by the bytes of \<open>b\<close>, unchanged and in order, and decoding it gives back
  the samples \<open>b\<close> and the sample rate \<open>r\<close>.
\<close>

theorem base64ToWavBlob_roundtrip:
  assumes "atob base64 = Inr binaryString"
    and "0 < r" and "r < 2 ^ 32" and "length binaryString < 2 ^ 32"
  shows "\<exists>blob. base64ToWavBlob atob base64 (Some (Num (real r))) = Inr blob \<and>
     length (take 44 (blob_bytes blob)) = 44 \<and>
     take 44 (blob_bytes blob) = wavHeader (length binaryString) (Num (real r)) \<and>
     drop 44 (blob_bytes blob) = tagBytes binaryString \<and>
     blob_bytes blob = take 44 (blob_bytes blob) @ tagBytes binaryString \<and>
     decode_spec (blob_bytes blob) = Some \<lparr>samples = tagBytes binaryString, decodedRate = r\<rparr>"
proof -
  define B where "B = wavHeader (length binaryString) (Num (real r)) @ tagBytes binaryString"
  let ?len = "length binaryString"
  have b: "B = tagBytes ''RIFF'' @ le32 (word_of_nat (36 + ?len)) @ tagBytes ''WAVE'' @
     tagBytes ''fmt '' @ le32 16 @ le16 1 @ le16 1 @
     le32 (word_of_nat r) @ le32 (word_of_nat (r * 2)) @ le16 2 @ le16 16 @
     tagBytes ''data'' @ le32 (word_of_nat ?len) @ tagBytes binaryString"
    by (simp only: B_def wavHeader_nat append_assoc)
  note f = header_fields [of "word_of_nat (36 + ?len)" 16 1 1 "word_of_nat r"
      "word_of_nat (r * 2)" 2 16 "word_of_nat ?len" "tagBytes binaryString", folded b]
  have u2: "unat (word_of_nat r :: 32 word) = r"
    by (rule unat_word32_of_nat) (use assms(3) in simp)
  have u4: "unat (word_of_nat ?len :: 32 word) = ?len"
    by (rule unat_word32_of_nat) (use assms(4) in simp)
  have len: "length B = 44 + ?len" by (simp add: B_def)
  have enc: "base64ToWavBlob atob base64 (Some (Num (real r)))
               = Inr \<lparr>blob_bytes = B, blob_type = ''audio/wav''\<rparr>"
    unfolding B_def using assms(1) by (rule encode_Some)
  have hd: "take 44 B = wavHeader ?len (Num (real r))"
    by (simp add: B_def)
  have tl: "drop 44 B = tagBytes binaryString"
    by (simp add: B_def)
  have dec: "decode_spec B = Some \<lparr>samples = tagBytes binaryString, decodedRate = r\<rparr>"
    unfolding decode_spec_def f u2 u4 len tl by simp
  from enc hd tl dec len show ?thesis
    by (simp add: B_def)
qed

theorem base64ToWavBlob_roundtrip_witness:
  "atob_excerpt ''AAECAw=='' = Inr [CHR 0x00, CHR 0x01, CHR 0x02, CHR 0x03] \<and>
   (0::nat) < 24000 \<and> (24000::nat) < 2 ^ 32 \<and>
   length [CHR 0x00, CHR 0x01, CHR 0x02, CHR 0x03] < 2 ^ 32 \<and>
   (\<exists>blob. base64ToWavBlob atob_excerpt ''AAECAw=='' (Some (Num 24000)) = Inr blob \<and>
      drop 44 (blob_bytes blob) = [0, 1, 2, 3] \<and>
      decode_spec (blob_bytes blob) = Some \<lparr>samples = [0, 1, 2, 3], decodedRate = 24000\<rparr>)"
proof -
  let ?bin = "[CHR 0x00, CHR 0x01, CHR 0x02, CHR 0x03]"
  have h1: "atob_excerpt ''AAECAw=='' = Inr ?bin" by (simp add: atob_excerpt_def)
  have h2: "(0::nat) < 24000" by simp
  have h3: "(24000::nat) < 2 ^ 32" by simp
  have h4: "length ?bin < 2 ^ 32" by simp
  have t: "tagBytes ?bin = [0, 1, 2, 3]" by (simp add: tagBytes_def)
  from base64ToWavBlob_roundtrip [of atob_excerpt "''AAECAw==''" ?bin 24000, OF h1 h2 h3 h4]
  obtain blob where "base64ToWavBlob atob_excerpt ''AAECAw=='' (Some (Num (real 24000))) = Inr blob"
    and "drop 44 (blob_bytes blob) = tagBytes ?bin"
    and "decode_spec (blob_bytes blob) = Some \<lparr>samples = tagBytes ?bin, decodedRate = 24000\<rparr>"
    by blast
  then have "base64ToWavBlob atob_excerpt ''AAECAw=='' (Some (Num 24000)) = Inr blob \<and>
      drop 44 (blob_bytes blob) = [0, 1, 2, 3] \<and>
      decode_spec (blob_bytes blob) = Some \<lparr>samples = [0, 1, 2, 3], decodedRate = 24000\<rparr>"
    by (simp add: t)
  then have "\<exists>blob. base64ToWavBlob atob_excerpt ''AAECAw=='' (Some (Num 24000)) = Inr blob \<and>
      drop 44 (blob_bytes blob) = [0, 1, 2, 3] \<and>
      decode_spec (blob_bytes blob) = Some \<lparr>samples = [0, 1, 2, 3], decodedRate = 24000\<rparr>" ..
  with h1 h2 h3 h4 show ?thesis by blast
qed

text \<open>
  The sample rate \<open>2 ^ 32\<close> does not fit the 32-bit field: it is written as 0, and the
  decoder reads 0.
\<close>

lemma encode_sample_huge:
  "base64ToWavBlob atob_excerpt ''AAECAw=='' (Some (Num 4294967296)) =
     Inr \<lparr>blob_bytes = [82, 73, 70, 70, 40, 0, 0, 0, 87, 65, 86, 69, 102, 109, 116, 32,
                       16, 0, 0, 0, 1, 0, 1, 0, 0, 0, 0, 0, 0, 0, 0, 0, 2, 0, 16, 0,
                       100, 97, 116, 97, 4, 0, 0, 0, 0, 1, 2, 3],
          blob_type = ''audio/wav''\<rparr>"
  by (simp add: base64ToWavBlob_layout atob_excerpt_def bindE_def wavHeader_def tagBytes_def
        le32_def le16_def)

theorem sampleRate_wraps_counterexample:
  "base64ToWavBlob atob_excerpt ''AAECAw=='' (Some (Num 4294967296)) =
     Inr \<lparr>blob_bytes = [82, 73, 70, 70, 40, 0, 0, 0, 87, 65, 86, 69, 102, 109, 116, 32,
                       16, 0, 0, 0, 1, 0, 1, 0, 0, 0, 0, 0, 0, 0, 0, 0, 2, 0, 16, 0,
                       100, 97, 116, 97, 4, 0, 0, 0, 0, 1, 2, 3],
          blob_type = ''audio/wav''\<rparr> \<and>
   decode_spec (blob_bytes (projr (base64ToWavBlob atob_excerpt ''AAECAw=='' (Some (Num 4294967296)))))
     = Some \<lparr>samples = [0, 1, 2, 3], decodedRate = 0\<rparr> \<and>
   decode_spec (blob_bytes (projr (base64ToWavBlob atob_excerpt ''AAECAw=='' (Some (Num 4294967296)))))
     \<noteq> Some \<lparr>samples = [0, 1, 2, 3], decodedRate = 4294967296\<rparr>"
  unfolding encode_sample_huge
  by (simp add: decode_spec_def getUint32_def getUint16_def word32_of_bytes_def
        word16_of_bytes_def tagBytes_def)

lemma encode_sample_24000:
  "base64ToWavBlob atob_excerpt ''AAECAw=='' (Some (Num 24000)) =
     Inr \<lparr>blob_bytes = [82, 73, 70, 70, 40, 0, 0, 0, 87, 65, 86, 69, 102, 109, 116, 32,
                       16, 0, 0, 0, 1, 0, 1, 0, 192, 93, 0, 0, 128, 187, 0, 0, 2, 0, 16, 0,
                       100, 97, 116, 97, 4, 0, 0, 0, 0, 1, 2, 3],
          blob_type = ''audio/wav''\<rparr>"
  by (simp add: base64ToWavBlob_layout atob_excerpt_def bindE_def wavHeader_def tagBytes_def
        le32_def le16_def)

lemma encode_default:
  "base64ToWavBlob atob base64 None = base64ToWavBlob atob base64 (Some (Num 24000))"
  by (simp add: base64ToWavBlob_def)

text \<open>
  C3. Encoding the payload 0, 1, 2, 3 at sample rate 24000 (which is also the
  default) gives 48 bytes, whose fields at the offsets 24, 28, 32 and 34, read
  little-endian, are 24000 (sample rate), 48000 (byte rate), 2 (block alignment) and 16
  (bits per sample).
\<close>

theorem scenario2_fields:
  "atob_excerpt ''AAECAw=='' = Inr [CHR 0x00, CHR 0x01, CHR 0x02, CHR 0x03] \<and>
   base64ToWavBlob atob_excerpt ''AAECAw=='' (Some (Num 24000)) =
     Inr \<lparr>blob_bytes = [82, 73, 70, 70, 40, 0, 0, 0, 87, 65, 86, 69, 102, 109, 116, 32,
                       16, 0, 0, 0, 1, 0, 1, 0, 192, 93, 0, 0, 128, 187, 0, 0, 2, 0, 16, 0,
                       100, 97, 116, 97, 4, 0, 0, 0, 0, 1, 2, 3],
          blob_type = ''audio/wav''\<rparr> \<and>
   length (blob_bytes (projr (base64ToWavBlob atob_excerpt ''AAECAw=='' (Some (Num 24000))))) = 48 \<and>
   unat (getUint32 (blob_bytes (projr (base64ToWavBlob atob_excerpt ''AAECAw=='' (Some (Num 24000))))) 24) = 24000 \<and>
   unat (getUint32 (blob_bytes (projr (base64ToWavBlob atob_excerpt ''AAECAw=='' (Some (Num 24000))))) 28) = 48000 \<and>
   unat (getUint16 (blob_bytes (projr (base64ToWavBlob atob_excerpt ''AAECAw=='' (Some (Num 24000))))) 32) = 2 \<and>
   unat (getUint16 (blob_bytes (projr (base64ToWavBlob atob_excerpt ''AAECAw=='' (Some (Num 24000))))) 34) = 16 \<and>
   base64ToWavBlob atob_excerpt ''AAECAw=='' None
     = base64ToWavBlob atob_excerpt ''AAECAw=='' (Some (Num 24000))"
  unfolding encode_default encode_sample_24000
  by (simp add: getUint32_def getUint16_def word32_of_bytes_def word16_of_bytes_def
        atob_excerpt_def)

text \<open>
  The bytes 36 to 43 of that output are the tag \<open>data\<close> and the payload length 4; they
  hold none of the four fields.
\<close>

theorem scenario2_offsets_counterexample:
  "take 8 (drop 36 (blob_bytes (projr (base64ToWavBlob atob_excerpt ''AAECAw=='' (Some (Num 24000))))))
     = [100, 97, 116, 97, 4, 0, 0, 0] \<and>
   unat (getUint32 (blob_bytes (projr (base64ToWavBlob atob_excerpt ''AAECAw=='' (Some (Num 24000))))) 36)
     = 1635017060 \<and>
   unat (getUint32 (blob_bytes (projr (base64ToWavBlob atob_excerpt ''AAECAw=='' (Some (Num 24000))))) 36)
     \<noteq> 24000 \<and>
   unat (getUint16 (blob_bytes (projr (base64ToWavBlob atob_excerpt ''AAECAw=='' (Some (Num 24000))))) 36)
     \<noteq> 24000 \<and>
   unat (getUint32 (blob_bytes (projr (base64ToWavBlob atob_excerpt ''AAECAw=='' (Some (Num 24000))))) 40)
     = 4 \<and>
   unat (getUint32 (blob_bytes (projr (base64ToWavBlob atob_excerpt ''AAECAw=='' (Some (Num 24000))))) 40)
     \<noteq> 48000"
  unfolding encode_sample_24000
  by (simp add: getUint32_def getUint16_def word32_of_bytes_def word16_of_bytes_def)

section \<open>Properties of the orchestration\<close>

lemma isSpeechRequest_translateRequest [simp]: "\<not> isSpeechRequest (translateRequest text language)"
  by (simp add: isSpeechRequest_def translateRequest_def Let_def)

lemma isSpeechRequest_speechRequest [simp]: "isSpeechRequest (speechRequest text voiceName)"
  by (simp add: isSpeechRequest_def speechRequest_def)
















section \<open>Properties of the application handlers\<close>

text \<open>
  C8. When a generation request with a non-blank input fails (the
  orchestration fails, or the audio it returned cannot be converted), the playback state
  is the state that the reset at the start of the request produced: no audio URL, no
  segments, position 0, duration 0, and the audio element, if there is one, paused with an
  empty source. The generating flag is cleared, every other variable of the state is as
  it was, and the failure is reported by one console message and one alert.
\<close>

theorem handleGenerate_failure_resets:
  assumes "trim (inputText s) \<noteq> []"
    and "snd (processContent (api env) (inputText s) (selectedLang s) (name (selectedVoice s))) = Inl e
         \<or> (\<exists>result.
              snd (processContent (api env) (inputText s) (selectedLang s) (name (selectedVoice s)))
                = Inr result \<and>
              base64ToWavBlob (window_atob env) (audioBase64 result) None = Inl e)"
  shows "fst (handleGenerate env s) =
           s\<lparr>isGenerating := False, audioUrl := None, shownSegments := [],
              currentTime := Num 0, duration := Num 0,
              audioRef := map_option (\<lambda>a. a\<lparr>paused := True, src := []\<rparr>) (audioRef s)\<rparr> \<and>
         snd (snd (handleGenerate env s)) =
           [ConsoleError ''Generation failed:'' e,
            Alert ''Failed to generate content. Please check your API Key and try again.'']"
proof -
  obtain calls outcome where pc:
    "processContent (api env) (inputText s) (selectedLang s) (name (selectedVoice s)) = (calls, outcome)"
    by (cases "processContent (api env) (inputText s) (selectedLang s) (name (selectedVoice s))")
  from assms(2) pc have
    "outcome = Inl e \<or> (\<exists>result. outcome = Inr result \<and>
        base64ToWavBlob (window_atob env) (audioBase64 result) None = Inl e)"
    by simp
  then show ?thesis
  proof
    assume "outcome = Inl e"
    with assms(1) pc show ?thesis
      by (simp add: handleGenerate_def Let_def bindE_def audio_pause_def)
  next
    assume "\<exists>result. outcome = Inr result \<and>
        base64ToWavBlob (window_atob env) (audioBase64 result) None = Inl e"
    then obtain result where "outcome = Inr result"
      and "base64ToWavBlob (window_atob env) (audioBase64 result) None = Inl e"
      by blast
    with assms(1) pc show ?thesis
      by (simp add: handleGenerate_def Let_def bindE_def audio_pause_def)
  qed
qed

lemma process_noKey:
  "processContent (api noKeyEnv) (inputText playingState) (selectedLang playingState)
       (name (selectedVoice playingState))
     = ([], Inl (Error ''API Key is missing. Please set the API_KEY environment variable.''))"
  by (simp add: processContent_def translateAndSegment_def getClient_def noKeyEnv_def)

lemma trim_playing: "trim (inputText playingState) \<noteq> []"
  by (simp add: playingState_def trim_def isWhiteSpace_def)

theorem handleGenerate_failure_resets_witness:
  "trim (inputText playingState) \<noteq> [] \<and>
   snd (processContent (api noKeyEnv) (inputText playingState) (selectedLang playingState)
          (name (selectedVoice playingState)))
     = Inl (Error ''API Key is missing. Please set the API_KEY environment variable.'') \<and>
   audioUrl (fst (handleGenerate noKeyEnv playingState)) = None \<and>
   shownSegments (fst (handleGenerate noKeyEnv playingState)) = [] \<and>
   currentTime (fst (handleGenerate noKeyEnv playingState)) = Num 0 \<and>
   duration (fst (handleGenerate noKeyEnv playingState)) = Num 0 \<and>
   isGenerating (fst (handleGenerate noKeyEnv playingState)) = False \<and>
   audioRef (fst (handleGenerate noKeyEnv playingState))
     = Some \<lparr>src = [], paused = True, el_currentTime = Num 3,
             el_playbackRate = Num 1, el_volume = Num 1\<rparr> \<and>
   snd (snd (handleGenerate noKeyEnv playingState)) =
     [ConsoleError ''Generation failed:''
        (Error ''API Key is missing. Please set the API_KEY environment variable.''),
      Alert ''Failed to generate content. Please check your API Key and try again.'']"
proof -
  have h2: "snd (processContent (api noKeyEnv) (inputText playingState) (selectedLang playingState)
          (name (selectedVoice playingState)))
     = Inl (Error ''API Key is missing. Please set the API_KEY environment variable.'')"
    by (simp add: process_noKey)
  note main = handleGenerate_failure_resets [OF trim_playing disjI1, OF h2]
  have a: "audioRef playingState = Some \<lparr>src = ''blob:previous'', paused = False,
     el_currentTime = Num 3, el_playbackRate = Num 1, el_volume = Num 1\<rparr>"
    by (simp add: playingState_def)
  from main a trim_playing h2 show ?thesis by simp
qed

text \<open>
  A failed request does not leave a working audio source untouched: the clean-up precedes
  the \<^verbatim>\<open>try\<close> block, so the URL, the segments, the position and the duration are cleared
  and the element is paused and emptied whether or not the request then succeeds.
\<close>

theorem handleGenerate_failure_clears_counterexample:
  "trim (inputText playingState) \<noteq> [] \<and>
   snd (processContent (api noKeyEnv) (inputText playingState) (selectedLang playingState)
          (name (selectedVoice playingState)))
     = Inl (Error ''API Key is missing. Please set the API_KEY environment variable.'') \<and>
   audioUrl playingState = Some ''blob:previous'' \<and>
   audioUrl (fst (handleGenerate noKeyEnv playingState)) = None \<and>
   length (shownSegments playingState) = 2 \<and>
   shownSegments (fst (handleGenerate noKeyEnv playingState)) = [] \<and>
   currentTime playingState = Num 3 \<and>
   currentTime (fst (handleGenerate noKeyEnv playingState)) = Num 0 \<and>
   duration playingState = Num 12 \<and>
   duration (fst (handleGenerate noKeyEnv playingState)) = Num 0 \<and>
   map_option src (audioRef playingState) = Some ''blob:previous'' \<and>
   map_option src (audioRef (fst (handleGenerate noKeyEnv playingState))) = Some [] \<and>
   map_option paused (audioRef playingState) = Some False \<and>
   map_option paused (audioRef (fst (handleGenerate noKeyEnv playingState))) = Some True \<and>
   fst (handleGenerate noKeyEnv playingState) \<noteq> playingState"
proof -
  have g: "handleGenerate noKeyEnv playingState =
    (playingState\<lparr>isGenerating := False, audioUrl := None, shownSegments := [],
              currentTime := Num 0, duration := Num 0,
              audioRef := map_option (\<lambda>a. a\<lparr>paused := True, src := []\<rparr>) (audioRef playingState)\<rparr>,
     [],
     [ConsoleError ''Generation failed:''
        (Error ''API Key is missing. Please set the API_KEY environment variable.''),
      Alert ''Failed to generate content. Please check your API Key and try again.''])"
    using trim_playing
    by (simp add: handleGenerate_def process_noKey Let_def bindE_def audio_pause_def)
  have p: "playingState =
     \<lparr>inputText = ''Hello  World!!'',
      selectedLang = ENGLISH,
      selectedVoice = \<lparr>name = ''Puck'', voice_id = ''Puck'', gender = Male\<rparr>,
      isGenerating = False,
      audioUrl = Some ''blob:previous'',
      isPlaying = True,
      currentTime = Num 3,
      duration = Num 12,
      shownSegments = alignSegments helloWorld (Num 12),
      seekStep = Num 5,
      playbackRate = Num 1,
      volume = Num 1,
      audioRef = Some \<lparr>src = ''blob:previous'', paused = False, el_currentTime = Num 3,
                        el_playbackRate = Num 1, el_volume = Num 1\<rparr>\<rparr>"
    by (simp add: playingState_def)
  have l: "length (alignSegments helloWorld (Num 12)) = 2"
    by (simp only: alignSegments_def alignMap_length) (simp add: helloWorld_def)
  show ?thesis
    unfolding g fst_conv
    using trim_playing process_noKey l
    by (simp add: p)
qed

lemma Math_max_Num [simp]: "Math_max (Num a) (Num b) = Num (max a b)"
  by (simp add: Math_max_def max_def)

lemma Math_min_Num [simp]: "Math_min (Num a) (Num b) = Num (min a b)"
  by (auto simp: Math_min_def min_def)




end
